theory Spec2Isabelle
  imports Complex_Main
begin

section \<open>Data model of the point-of-sale module (client/js/pos.js)\<close>

text \<open>
  The cart and checkout logic lives in the class \<open>POSManager\<close>. Its methods mutate
  \<open>this.cart\<close> in place and read the checkout inputs from form fields of the page; the
  model passes the state explicitly. Monetary values are JavaScript numbers in the source;
  they are modelled as exact rationals, and the concrete inputs used below are dyadic, so
  that the source computes them without rounding. Quantities and stock are integers.
  Field names carry a suffix where two records of the source share a name
  (\<open>id\<close>, \<open>name\<close>, \<open>price\<close>, \<open>quantity\<close>).
\<close>

text \<open>A product record of the catalog, as read by \<open>addToCart\<close>.\<close>

record product =
  id_p :: string
  name_p :: string
  price_p :: rat
  stock :: int

text \<open>A cart line, as pushed by \<open>addToCart\<close>.\<close>

record cart_item =
  id_i :: string
  name_i :: string
  price_i :: rat
  quantity :: int
  maxStock :: int

text \<open>An element of \<open>transactionData.items\<close> and the request body built by \<open>checkout\<close>.\<close>

record transaction_item =
  id_t :: string
  name_t :: string
  price_t :: rat
  quantity_t :: int

record transaction_data =
  items :: "transaction_item list"
  customer_id :: string
  payment_method :: string
  cash_amount :: rat
  card_amount :: rat
  discount :: rat
  staff_name :: string

text \<open>
  The state the methods read and write: the cart, the tax rate, and the values the source
  obtains from the page at each use:
  \<^item> \<open>discountInput\<close> is \<open>parseFloat(#discountInput.value) || 0\<close>,
  \<^item> \<open>cashReceived\<close> is \<open>parseFloat(#cashReceived.value) || 0\<close>,
  \<^item> \<open>payment\<close> is the value of the checked \<open>payment\<close> radio button, or \<open>'cash'\<close>,
  \<^item> \<open>customerSelect\<close> is \<open>#customerSelect.value || ''\<close>,
  \<^item> \<open>userName\<close> is \<open>authManager.getCurrentUser()?.name || 'Staff'\<close>.

  \<open>inFlight\<close> is a history variable that the source does not hold: the number of
  \<open>apiRequest('/api/transactions', 'POST', ...)\<close> calls issued by \<open>checkout\<close> whose promise
  has not been settled yet.
\<close>

record pos_state =
  cart :: "cart_item list"
  taxRate :: rat
  discountInput :: rat
  cashReceived :: rat
  payment :: string
  customerSelect :: string
  userName :: string
  inFlight :: nat

text \<open>
  The warnings and failures the methods report through \<open>showToast\<close>, under the names of
  the specification: \<open>'Not enough stock available'\<close> is \<open>InsufficientStock\<close>,
  \<open>'Cart is empty'\<close> is \<open>EmptyCart\<close>, \<open>'Insufficient cash amount'\<close> is
  \<open>InsufficientFunds\<close>, and the error toast of the \<open>catch\<close> block of \<open>checkout\<close> is
  \<open>SubmissionFailed\<close> with its message. \<open>CheckoutInProgress\<close> is named by the
  specification only.
\<close>

datatype error =
    InsufficientStock
  | EmptyCart
  | InsufficientFunds
  | CheckoutInProgress
  | SubmissionFailed string

section \<open>Cart operations\<close>

text \<open>
  \<open>this.cart.find(pred)\<close> returns a reference to the first element satisfying the
  predicate (\<^const>\<open>find\<close> gives its value); an assignment through that reference changes
  this first element in place, which \<open>update_first\<close> does on the list.
\<close>

fun update_first :: "('a \<Rightarrow> bool) \<Rightarrow> ('a \<Rightarrow> 'a) \<Rightarrow> 'a list \<Rightarrow> 'a list" where
  "update_first P f [] = []"
| "update_first P f (x # xs) = (if P x then f x # xs else x # update_first P f xs)"

definition addToCart :: "product \<Rightarrow> pos_state \<Rightarrow> pos_state \<times> error option" where
  "addToCart p s =
     (case find (\<lambda>item. id_i item = id_p p) (cart s) of
        Some existingItem \<Rightarrow>
          if quantity existingItem < stock p
          then (s\<lparr>cart := update_first (\<lambda>item. id_i item = id_p p)
                              (\<lambda>item. item\<lparr>quantity := quantity item + 1\<rparr>) (cart s)\<rparr>, None)
          else (s, Some InsufficientStock)
      | None \<Rightarrow>
          (s\<lparr>cart := cart s @ [\<lparr>id_i = id_p p, name_i = name_p p, price_i = price_p p,
                                 quantity = 1, maxStock = stock p\<rparr>]\<rparr>, None))"

definition removeFromCart :: "string \<Rightarrow> pos_state \<Rightarrow> pos_state" where
  "removeFromCart productId s = s\<lparr>cart := filter (\<lambda>item. id_i item \<noteq> productId) (cart s)\<rparr>"

definition updateCartItemQuantity :: "string \<Rightarrow> int \<Rightarrow> pos_state \<Rightarrow> pos_state \<times> error option" where
  "updateCartItemQuantity productId change s =
     (case find (\<lambda>i. id_i i = productId) (cart s) of
        None \<Rightarrow> (s, None)
      | Some item \<Rightarrow>
          (let newQuantity = quantity item + change in
           if newQuantity \<le> 0 then (removeFromCart productId s, None)
           else if newQuantity \<le> maxStock item
           then (s\<lparr>cart := update_first (\<lambda>i. id_i i = productId)
                               (\<lambda>i. i\<lparr>quantity := newQuantity\<rparr>) (cart s)\<rparr>, None)
           else (s, Some InsufficientStock)))"

definition clearCart :: "pos_state \<Rightarrow> pos_state" where
  "clearCart s = s\<lparr>cart := []\<rparr>"

text \<open>
  The product grid is the caller of \<open>addToCart\<close>: \<open>renderProductGrid\<close> attaches the click
  listener to a product card only \<open>if (product.stock > 0)\<close>, so a click on the card of
  a product without stock runs nothing.
\<close>

definition productCard_click :: "product \<Rightarrow> pos_state \<Rightarrow> pos_state \<times> error option" where
  "productCard_click p s = (if stock p > 0 then addToCart p s else (s, None))"

section \<open>Totals\<close>

text \<open>
  \<open>updateTotals\<close> and \<open>calculateTotal\<close> both start from the same \<open>reduce\<close> over the
  cart; \<open>updateTotals\<close> shows subtotal, tax and total (each through \<open>toFixed(2)\<close>, which
  is presentation and not modelled), \<open>calculateTotal\<close> returns the total.
\<close>

definition cart_subtotal :: "cart_item list \<Rightarrow> rat" where
  "cart_subtotal c = foldl (\<lambda>sum item. sum + price_i item * of_int (quantity item)) 0 c"

definition updateTotals :: "pos_state \<Rightarrow> rat \<times> rat \<times> rat" where
  "updateTotals s =
     (let subtotal = cart_subtotal (cart s);
          discount = discountInput s;
          taxableAmount = subtotal - discount;
          tax = taxableAmount * taxRate s;
          total = taxableAmount + tax
      in (subtotal, tax, total))"

definition calculateTotal :: "pos_state \<Rightarrow> rat" where
  "calculateTotal s =
     (let subtotal = cart_subtotal (cart s);
          discount = discountInput s;
          taxableAmount = subtotal - discount;
          tax = taxableAmount * taxRate s
      in taxableAmount + tax)"

text \<open>
  The totals as the specification words them (\<open>computeTotals\<close>), with the taxable amount
  clamped at zero; it is compared with the two functions above.
\<close>

definition computeTotals_spec :: "cart_item list \<Rightarrow> rat \<Rightarrow> rat \<Rightarrow> rat \<times> rat \<times> rat" where
  "computeTotals_spec c d rate =
     (let subtotal = cart_subtotal c;
          taxableAmount = max 0 (subtotal - d);
          tax = taxableAmount * rate
      in (subtotal, tax, taxableAmount + tax))"

section \<open>Checkout\<close>

text \<open>
  What \<open>await this.apiRequest('/api/transactions', 'POST', transactionData)\<close> yields:
  the promise rejects with an \<open>Error\<close> message (\<open>fetch\<close> failed, or the HTTP status was not
  ok), or it resolves to the response object, of which \<open>checkout\<close> reads \<open>success\<close>,
  \<open>change_due\<close> and \<open>error\<close> (the empty string when absent).
\<close>

record transaction_response =
  success :: bool
  change_due :: rat
  error_r :: string

datatype api_result = Rejects string | Resolves transaction_response

text \<open>
  \<open>checkout\<close> is an \<open>async\<close> method with one suspension point, the \<open>await\<close> of the
  request. \<open>checkout_begin\<close> is the part that runs up to it: the two validation returns and
  the construction of \<open>transactionData\<close>; \<open>Inr\<close> carries the request that is issued.
  \<open>checkout_resume\<close> is the continuation, run with what the request yielded: on
  \<open>response.success\<close> the cart is cleared and the change due is shown when positive,
  otherwise the \<open>catch\<close> block reports the error; nothing else is written.
  \<open>checkout\<close> runs both with nothing in between, the collaborator being a function of
  the request.
\<close>

definition checkout_begin :: "pos_state \<Rightarrow> pos_state \<times> (error + transaction_data)" where
  "checkout_begin s =
     (if cart s = [] then (s, Inl EmptyCart)
      else
        (let customerId = customerSelect s;
             paymentMethod = payment s;
             cashAmount = (if paymentMethod = ''cash'' then cashReceived s else 0);
             cardAmount = (if paymentMethod = ''card'' then calculateTotal s else 0);
             discount = discountInput s
         in if paymentMethod = ''cash'' \<and> cashAmount < calculateTotal s
            then (s, Inl InsufficientFunds)
            else (s\<lparr>inFlight := Suc (inFlight s)\<rparr>,
                  Inr \<lparr>items = map (\<lambda>item. \<lparr>id_t = id_i item, name_t = name_i item,
                                                price_t = price_i item,
                                                quantity_t = quantity item\<rparr>) (cart s),
                       customer_id = customerId,
                       payment_method = paymentMethod,
                       cash_amount = cashAmount,
                       card_amount = cardAmount,
                       discount = discount,
                       staff_name = userName s\<rparr>)))"

definition checkout_resume :: "api_result \<Rightarrow> pos_state \<Rightarrow> pos_state \<times> (error + rat option)" where
  "checkout_resume r s =
     (let s' = s\<lparr>inFlight := inFlight s - 1\<rparr> in
      case r of
        Rejects message \<Rightarrow>
          (s', Inl (SubmissionFailed
                     (if message = [] then ''Transaction failed. Please try again.'' else message)))
      | Resolves response \<Rightarrow>
          if success response
          then (clearCart s',
                Inr (if change_due response > 0 then Some (change_due response) else None))
          else (s', Inl (SubmissionFailed
                          (if error_r response = [] then ''Transaction failed''
                           else error_r response))))"

definition checkout :: "(transaction_data \<Rightarrow> api_result) \<Rightarrow> pos_state \<Rightarrow> pos_state \<times> (error + rat option)" where
  "checkout api s =
     (case checkout_begin s of
        (s', Inl e) \<Rightarrow> (s', Inl e)
      | (s', Inr transactionData) \<Rightarrow> checkout_resume (api transactionData) s')"

text \<open>Whether the submission reported success.\<close>

fun succeeded :: "api_result \<Rightarrow> bool" where
  "succeeded (Rejects message) = False"
| "succeeded (Resolves response) = success response"

section \<open>Sequences of cart operations\<close>

datatype cart_op = AddItem product | RemoveItem string | UpdateQuantity string int

fun apply_op :: "cart_op \<Rightarrow> pos_state \<Rightarrow> pos_state" where
  "apply_op (AddItem p) s = fst (addToCart p s)"
| "apply_op (RemoveItem productId) s = removeFromCart productId s"
| "apply_op (UpdateQuantity productId change) s = fst (updateCartItemQuantity productId change s)"

fun run_ops :: "cart_op list \<Rightarrow> pos_state \<Rightarrow> pos_state" where
  "run_ops [] s = s"
| "run_ops (op # ops) s = run_ops ops (apply_op op s)"

section \<open>Invariants of the cart\<close>

text \<open>
  The invariant of the specification: every line has \<open>0 < quantity \<le> maxStock\<close>, and no
  two lines have the same product id.
\<close>

definition cart_invariant :: "cart_item list \<Rightarrow> bool" where
  "cart_invariant c =
     (list_all (\<lambda>l. 0 < quantity l \<and> quantity l \<le> maxStock l) c \<and> distinct (map id_i c))"

text \<open>
  Its two parts as they are proved: positive quantities with distinct ids, and
  quantities within \<open>maxStock\<close>.
\<close>

definition basic_inv :: "cart_item list \<Rightarrow> bool" where
  "basic_inv c = (list_all (\<lambda>l. 0 < quantity l) c \<and> distinct (map id_i c))"

definition bound_inv :: "cart_item list \<Rightarrow> bool" where
  "bound_inv c = list_all (\<lambda>l. quantity l \<le> maxStock l) c"

text \<open>
  The two ways in which \<open>addToCart\<close> can break \<open>quantity \<le> maxStock\<close> are excluded by
  \<open>add_keeps_bound\<close>: a line is created only from a product with a positive stock, and a
  line that has reached its \<open>maxStock\<close> is not incremented (the add is refused, or the
  line is below its \<open>maxStock\<close>). A snapshot whose stock is at most the \<open>maxStock\<close> of the
  line always satisfies the second condition. \<open>adds_keep_bound\<close> asks this of every add of
  a sequence, at the state the add is run in, and \<open>invariant_along\<close> says that the
  invariant holds before the sequence and after each of its operations.
\<close>

definition add_keeps_bound :: "product \<Rightarrow> cart_item list \<Rightarrow> bool" where
  "add_keeps_bound p c =
     (case find (\<lambda>item. id_i item = id_p p) c of
        None \<Rightarrow> 0 < stock p
      | Some existingItem \<Rightarrow>
          stock p \<le> quantity existingItem \<or> quantity existingItem < maxStock existingItem)"

fun adds_keep_bound :: "cart_op list \<Rightarrow> pos_state \<Rightarrow> bool" where
  "adds_keep_bound [] s = True"
| "adds_keep_bound (AddItem p # ops) s =
     (add_keeps_bound p (cart s) \<and> adds_keep_bound ops (apply_op (AddItem p) s))"
| "adds_keep_bound (RemoveItem productId # ops) s =
     adds_keep_bound ops (apply_op (RemoveItem productId) s)"
| "adds_keep_bound (UpdateQuantity productId change # ops) s =
     adds_keep_bound ops (apply_op (UpdateQuantity productId change) s)"

fun invariant_along :: "cart_op list \<Rightarrow> pos_state \<Rightarrow> bool" where
  "invariant_along [] s = cart_invariant (cart s)"
| "invariant_along (op # ops) s =
     (cart_invariant (cart s) \<and> invariant_along ops (apply_op op s))"

section \<open>Concrete sessions\<close>

text \<open>
  A small catalog (lipstick at 10 with 3 in stock, mascara at 4 with 1 in stock, a blush
  that is sold out), the cart lines \<open>addToCart\<close> makes of them, sessions at a tax rate
  of 1/8, and three behaviours of the transaction endpoint.
\<close>

definition new_session :: pos_state where
  "new_session = \<lparr>cart = [], taxRate = 1/8, discountInput = 0, cashReceived = 0,
     payment = ''cash'', customerSelect = [], userName = ''Staff'', inFlight = 0\<rparr>"

definition lipstick :: product where
  "lipstick = \<lparr>id_p = ''p1'', name_p = ''Lipstick'', price_p = 10, stock = 3\<rparr>"

definition restocked_lipstick :: product where
  "restocked_lipstick = \<lparr>id_p = ''p1'', name_p = ''Lipstick'', price_p = 10, stock = 5\<rparr>"

definition mascara :: product where
  "mascara = \<lparr>id_p = ''p2'', name_p = ''Mascara'', price_p = 4, stock = 1\<rparr>"

definition sold_out :: product where
  "sold_out = \<lparr>id_p = ''p3'', name_p = ''Blush'', price_p = 6, stock = 0\<rparr>"

definition lipstick_line :: "int \<Rightarrow> cart_item" where
  "lipstick_line q =
     \<lparr>id_i = ''p1'', name_i = ''Lipstick'', price_i = 10, quantity = q, maxStock = 3\<rparr>"

definition mascara_line :: cart_item where
  "mascara_line =
     \<lparr>id_i = ''p2'', name_i = ''Mascara'', price_i = 4, quantity = 1, maxStock = 1\<rparr>"

definition blush_line :: cart_item where
  "blush_line = \<lparr>id_i = ''p3'', name_i = ''Blush'', price_i = 6, quantity = 1, maxStock = 0\<rparr>"

definition sample_ops :: "cart_op list" where
  "sample_ops =
     [AddItem lipstick, AddItem restocked_lipstick, AddItem mascara, AddItem mascara,
      UpdateQuantity ''p1'' 1, UpdateQuantity ''p1'' 1, UpdateQuantity ''p2'' (- 1),
      AddItem mascara, RemoveItem ''p1'', AddItem lipstick]"

definition card_session :: pos_state where
  "card_session = new_session\<lparr>cart := [lipstick_line 2], payment := ''card''\<rparr>"

definition cash_session :: "rat \<Rightarrow> pos_state" where
  "cash_session tendered = new_session\<lparr>cart := [lipstick_line 2], cashReceived := tendered\<rparr>"

definition lipstick_sale :: "string \<Rightarrow> rat \<Rightarrow> rat \<Rightarrow> transaction_data" where
  "lipstick_sale method cashAmount cardAmount =
     \<lparr>items = [\<lparr>id_t = ''p1'', name_t = ''Lipstick'', price_t = 10, quantity_t = 2\<rparr>],
      customer_id = [], payment_method = method, cash_amount = cashAmount,
      card_amount = cardAmount, discount = 0, staff_name = ''Staff''\<rparr>"

definition accepting :: "transaction_data \<Rightarrow> api_result" where
  "accepting td = Resolves \<lparr>success = True, change_due = 5/2, error_r = []\<rparr>"

definition refusing :: "transaction_data \<Rightarrow> api_result" where
  "refusing td = Resolves \<lparr>success = False, change_due = 0, error_r = ''Insufficient stock''\<rparr>"

definition unreachable :: "transaction_data \<Rightarrow> api_result" where
  "unreachable td = Rejects ''Failed to fetch''"

section \<open>The first line with a given product id\<close>

text \<open>
  A cart whose first line for a product is \<open>l\<close> has the shape \<open>xs @ l # ys\<close> with no
  line of \<open>xs\<close> for that product: \<open>find\<close> returns \<open>l\<close>, and a write through the
  reference changes \<open>l\<close> where it stands.
\<close>

lemma find_first:
  "\<forall>x\<in>set xs. \<not> P x \<Longrightarrow> P l \<Longrightarrow> find P (xs @ l # ys) = Some l"
  by (induction xs) auto

lemma update_first_first:
  "\<forall>x\<in>set xs. \<not> P x \<Longrightarrow> P l \<Longrightarrow> update_first P f (xs @ l # ys) = xs @ f l # ys"
  by (induction xs) auto

lemma find_absent: "\<forall>x\<in>set xs. \<not> P x \<Longrightarrow> find P xs = None"
  by (induction xs) auto

lemma map_update_first:
  "(\<And>x. g (f x) = g x) \<Longrightarrow> map g (update_first P f xs) = map g xs"
  by (induction xs) auto

lemma list_all_update_first:
  "find P xs = Some x \<Longrightarrow> list_all Q xs \<Longrightarrow> Q (f x) \<Longrightarrow> list_all Q (update_first P f xs)"
  by (induction xs) (auto split: if_splits)

section \<open>Adding a product\<close>

text \<open>
  C4. \<open>addToCart\<close> never creates a second line for a product id already in the cart.
  If the first line \<open>l\<close> for the product has \<open>quantity l < stock p\<close>, exactly that line's
  quantity grows by one and nothing is appended; if \<open>stock p \<le> quantity l\<close>, the call
  reports \<open>InsufficientStock\<close> and the state is unchanged; if the cart has no line for the
  product, one line with quantity 1 and \<open>maxStock = stock p\<close> is appended. Whenever the
  product id is in the cart, the list of ids of the cart is the same after the call.
\<close>

theorem addToCart_cases:
  "(cart s = xs @ l # ys \<and> (\<forall>x\<in>set xs. id_i x \<noteq> id_p p) \<and> id_i l = id_p p
       \<and> quantity l < stock p
      \<longrightarrow> addToCart p s = (s\<lparr>cart := xs @ l\<lparr>quantity := quantity l + 1\<rparr> # ys\<rparr>, None))
   \<and> (cart s = xs @ l # ys \<and> (\<forall>x\<in>set xs. id_i x \<noteq> id_p p) \<and> id_i l = id_p p
       \<and> stock p \<le> quantity l
      \<longrightarrow> addToCart p s = (s, Some InsufficientStock))
   \<and> ((\<forall>x\<in>set (cart s). id_i x \<noteq> id_p p)
      \<longrightarrow> addToCart p s =
            (s\<lparr>cart := cart s @ [\<lparr>id_i = id_p p, name_i = name_p p, price_i = price_p p,
                                    quantity = 1, maxStock = stock p\<rparr>]\<rparr>, None))
   \<and> (id_p p \<in> id_i ` set (cart s)
      \<longrightarrow> map id_i (cart (fst (addToCart p s))) = map id_i (cart s))"
proof (intro conjI impI)
  assume "cart s = xs @ l # ys \<and> (\<forall>x\<in>set xs. id_i x \<noteq> id_p p) \<and> id_i l = id_p p
    \<and> quantity l < stock p"
  then show "addToCart p s = (s\<lparr>cart := xs @ l\<lparr>quantity := quantity l + 1\<rparr> # ys\<rparr>, None)"
    by (simp add: addToCart_def find_first update_first_first)
next
  assume "cart s = xs @ l # ys \<and> (\<forall>x\<in>set xs. id_i x \<noteq> id_p p) \<and> id_i l = id_p p
    \<and> stock p \<le> quantity l"
  then show "addToCart p s = (s, Some InsufficientStock)"
    by (simp add: addToCart_def find_first)
next
  assume "\<forall>x\<in>set (cart s). id_i x \<noteq> id_p p"
  then show "addToCart p s =
      (s\<lparr>cart := cart s @ [\<lparr>id_i = id_p p, name_i = name_p p, price_i = price_p p,
                              quantity = 1, maxStock = stock p\<rparr>]\<rparr>, None)"
    by (simp add: addToCart_def find_absent)
next
  assume "id_p p \<in> id_i ` set (cart s)"
  then have "find (\<lambda>item. id_i item = id_p p) (cart s) \<noteq> None"
    by (auto simp: find_None_iff)
  then show "map id_i (cart (fst (addToCart p s))) = map id_i (cart s)"
    by (auto simp: addToCart_def map_update_first split: option.splits)
qed

text \<open>
  The four cases on a cart with a mascara line and a lipstick line (stock 3): a third
  lipstick is counted on its line, a fourth is refused, a first one is appended with
  quantity 1, and the ids stay \<open>p2, p1\<close>.
\<close>

theorem addToCart_cases_witness:
  "addToCart lipstick (new_session\<lparr>cart := [mascara_line, lipstick_line 2]\<rparr>)
     = (new_session\<lparr>cart := [mascara_line, lipstick_line 3]\<rparr>, None)
   \<and> addToCart lipstick (new_session\<lparr>cart := [mascara_line, lipstick_line 3]\<rparr>)
     = (new_session\<lparr>cart := [mascara_line, lipstick_line 3]\<rparr>, Some InsufficientStock)
   \<and> addToCart lipstick (new_session\<lparr>cart := [mascara_line]\<rparr>)
     = (new_session\<lparr>cart := [mascara_line, lipstick_line 1]\<rparr>, None)
   \<and> map id_i (cart (fst (addToCart lipstick
                             (new_session\<lparr>cart := [mascara_line, lipstick_line 2]\<rparr>))))
     = [''p2'', ''p1'']"
  using addToCart_cases [of "new_session\<lparr>cart := [mascara_line, lipstick_line 2]\<rparr>"
                            "[mascara_line]" "lipstick_line 2" "[]" lipstick]
        addToCart_cases [of "new_session\<lparr>cart := [mascara_line, lipstick_line 3]\<rparr>"
                            "[mascara_line]" "lipstick_line 3" "[]" lipstick]
        addToCart_cases [of "new_session\<lparr>cart := [mascara_line]\<rparr>"
                            "[]" "lipstick_line 0" "[]" lipstick]
  by (simp add: lipstick_def new_session_def mascara_line_def lipstick_line_def)

text \<open>
  C8 (as amended). A successful increment of an existing line leaves that line's
  \<open>maxStock\<close> as it was: \<open>addToCart\<close> changes no \<open>maxStock\<close> of a line already in the
  cart, and writes \<open>maxStock = stock p\<close> only on the line it creates. The stored
  \<open>maxStock\<close> is thus the stock of the product at the add that created the line.
\<close>

theorem addToCart_keeps_maxStock:
  "(cart s = xs @ l # ys \<and> (\<forall>x\<in>set xs. id_i x \<noteq> id_p p) \<and> id_i l = id_p p
       \<and> quantity l < stock p
      \<longrightarrow> cart (fst (addToCart p s)) = xs @ l\<lparr>quantity := quantity l + 1\<rparr> # ys
          \<and> maxStock (cart (fst (addToCart p s)) ! length xs) = maxStock l)
   \<and> map maxStock (take (length (cart s)) (cart (fst (addToCart p s)))) = map maxStock (cart s)
   \<and> ((\<forall>x\<in>set (cart s). id_i x \<noteq> id_p p)
      \<longrightarrow> maxStock (last (cart (fst (addToCart p s)))) = stock p)"
proof (intro conjI impI)
  assume "cart s = xs @ l # ys \<and> (\<forall>x\<in>set xs. id_i x \<noteq> id_p p) \<and> id_i l = id_p p
    \<and> quantity l < stock p"
  then show r: "cart (fst (addToCart p s)) = xs @ l\<lparr>quantity := quantity l + 1\<rparr> # ys"
    by (simp add: addToCart_def find_first update_first_first)
  show "maxStock (cart (fst (addToCart p s)) ! length xs) = maxStock l"
    unfolding r by simp
next
  show "map maxStock (take (length (cart s)) (cart (fst (addToCart p s)))) = map maxStock (cart s)"
    by (auto simp: addToCart_def map_update_first take_map [symmetric]
          simp del: take_map split: option.splits)
next
  assume "\<forall>x\<in>set (cart s). id_i x \<noteq> id_p p"
  then show "maxStock (last (cart (fst (addToCart p s)))) = stock p"
    by (simp add: addToCart_def find_absent)
qed

text \<open>
  After a restock to 5, a fourth lipstick is counted on the line, whose \<open>maxStock\<close>
  stays 3; a first lipstick gets \<open>maxStock = 5\<close>.
\<close>

theorem addToCart_keeps_maxStock_witness:
  "cart (fst (addToCart restocked_lipstick
                (new_session\<lparr>cart := [mascara_line, lipstick_line 3]\<rparr>)))
     = [mascara_line, lipstick_line 4]
   \<and> maxStock (cart (fst (addToCart restocked_lipstick
        (new_session\<lparr>cart := [mascara_line, lipstick_line 3]\<rparr>))) ! 1) = 3
   \<and> maxStock (last (cart (fst (addToCart restocked_lipstick
        (new_session\<lparr>cart := [mascara_line]\<rparr>))))) = 5"
  using addToCart_keeps_maxStock [where s = "new_session\<lparr>cart := [mascara_line, lipstick_line 3]\<rparr>"
          and xs = "[mascara_line]" and l = "lipstick_line 3" and ys = "[]"
          and p = restocked_lipstick]
        addToCart_keeps_maxStock [where s = "new_session\<lparr>cart := [mascara_line]\<rparr>"
          and xs = "[]" and l = "lipstick_line 0" and ys = "[]" and p = restocked_lipstick]
  by (simp add: new_session_def mascara_line_def lipstick_line_def restocked_lipstick_def)

text \<open>
  C8 as stated fails: the line holds 3 lipsticks with \<open>maxStock = 3\<close>, the snapshot says
  5 in stock, the add succeeds, and the line's \<open>maxStock\<close> is not 5 afterwards.
\<close>

theorem addToCart_refresh_counterexample:
  "quantity (lipstick_line 3) < stock restocked_lipstick
   \<and> snd (addToCart restocked_lipstick (new_session\<lparr>cart := [lipstick_line 3]\<rparr>)) = None
   \<and> maxStock (cart (fst (addToCart restocked_lipstick
        (new_session\<lparr>cart := [lipstick_line 3]\<rparr>))) ! 0) \<noteq> stock restocked_lipstick"
  by (simp add: addToCart_def new_session_def lipstick_line_def restocked_lipstick_def)

text \<open>
  C7 (as amended). For a product with \<open>stock p \<le> 0\<close>: the product grid does not call
  \<open>addToCart\<close>, so a click on its card changes nothing; \<open>addToCart\<close> itself refuses the
  product with \<open>InsufficientStock\<close> when the cart already has a line for it with a
  positive quantity; and when the cart has no line for the product, \<open>addToCart\<close>
  appends a line with quantity 1 whatever the stock is.
\<close>

theorem out_of_stock_add:
  "(stock p \<le> 0 \<longrightarrow> productCard_click p s = (s, None))
   \<and> (stock p \<le> 0 \<and> cart s = xs @ l # ys \<and> (\<forall>x\<in>set xs. id_i x \<noteq> id_p p)
        \<and> id_i l = id_p p \<and> 0 < quantity l
      \<longrightarrow> addToCart p s = (s, Some InsufficientStock))
   \<and> ((\<forall>x\<in>set (cart s). id_i x \<noteq> id_p p)
      \<longrightarrow> addToCart p s =
            (s\<lparr>cart := cart s @ [\<lparr>id_i = id_p p, name_i = name_p p, price_i = price_p p,
                                    quantity = 1, maxStock = stock p\<rparr>]\<rparr>, None))"
  by (simp add: productCard_click_def addToCart_def find_first find_absent)

text \<open>
  The sold-out blush: its card does nothing, a second add is refused, a first add through
  \<open>addToCart\<close> appends the line.
\<close>

theorem out_of_stock_add_witness:
  "stock sold_out \<le> 0
   \<and> productCard_click sold_out new_session = (new_session, None)
   \<and> addToCart sold_out (new_session\<lparr>cart := [mascara_line, blush_line]\<rparr>)
      = (new_session\<lparr>cart := [mascara_line, blush_line]\<rparr>, Some InsufficientStock)
   \<and> addToCart sold_out (new_session\<lparr>cart := [mascara_line]\<rparr>)
      = (new_session\<lparr>cart := [mascara_line, blush_line]\<rparr>, None)"
  using out_of_stock_add [where p = sold_out and s = new_session
          and xs = "[]" and l = blush_line and ys = "[]"]
        out_of_stock_add [where p = sold_out
          and s = "new_session\<lparr>cart := [mascara_line, blush_line]\<rparr>"
          and xs = "[mascara_line]" and l = blush_line and ys = "[]"]
        out_of_stock_add [where p = sold_out and s = "new_session\<lparr>cart := [mascara_line]\<rparr>"
          and xs = "[]" and l = blush_line and ys = "[]"]
  by (simp add: sold_out_def new_session_def mascara_line_def blush_line_def)

text \<open>
  C7 as stated fails: \<open>addToCart\<close> on an empty cart with the sold-out blush is not
  refused and creates a line with quantity 1.
\<close>

theorem out_of_stock_add_counterexample:
  "stock sold_out \<le> 0
   \<and> addToCart sold_out new_session = (new_session\<lparr>cart := [blush_line]\<rparr>, None)
   \<and> quantity blush_line = 1"
  by (simp add: addToCart_def sold_out_def new_session_def blush_line_def)

section \<open>Changing a quantity\<close>

text \<open>
  C5. \<open>updateCartItemQuantity productId change\<close>: when the cart has no line for
  \<open>productId\<close>, the state is unchanged and nothing is reported. Otherwise, with \<open>l\<close> the
  line for the product and \<open>quantity l + change\<close> the new quantity: when it is at most
  0, the line is removed (no line for the product remains); when it is positive and at
  most \<open>maxStock l\<close>, it becomes the quantity of that line and nothing else changes; when
  it exceeds \<open>maxStock l\<close> (a \<open>maxStock\<close> of the data model, not negative), the call
  reports \<open>InsufficientStock\<close> and the state is unchanged.
\<close>

theorem updateCartItemQuantity_cases:
  "((\<forall>x\<in>set (cart s). id_i x \<noteq> productId)
      \<longrightarrow> updateCartItemQuantity productId change s = (s, None))
   \<and> (cart s = xs @ l # ys \<and> (\<forall>x\<in>set xs. id_i x \<noteq> productId) \<and> id_i l = productId
       \<and> quantity l + change \<le> 0
      \<longrightarrow> updateCartItemQuantity productId change s
            = (s\<lparr>cart := filter (\<lambda>item. id_i item \<noteq> productId) (cart s)\<rparr>, None)
          \<and> productId \<notin> id_i ` set (cart (fst (updateCartItemQuantity productId change s))))
   \<and> (cart s = xs @ l # ys \<and> (\<forall>x\<in>set xs. id_i x \<noteq> productId) \<and> id_i l = productId
       \<and> 0 < quantity l + change \<and> quantity l + change \<le> maxStock l
      \<longrightarrow> updateCartItemQuantity productId change s
            = (s\<lparr>cart := xs @ l\<lparr>quantity := quantity l + change\<rparr> # ys\<rparr>, None))
   \<and> (cart s = xs @ l # ys \<and> (\<forall>x\<in>set xs. id_i x \<noteq> productId) \<and> id_i l = productId
       \<and> 0 \<le> maxStock l \<and> maxStock l < quantity l + change
      \<longrightarrow> updateCartItemQuantity productId change s = (s, Some InsufficientStock))"
proof (intro conjI impI)
  assume "\<forall>x\<in>set (cart s). id_i x \<noteq> productId"
  then show "updateCartItemQuantity productId change s = (s, None)"
    by (simp add: updateCartItemQuantity_def find_absent)
next
  assume "cart s = xs @ l # ys \<and> (\<forall>x\<in>set xs. id_i x \<noteq> productId) \<and> id_i l = productId
    \<and> quantity l + change \<le> 0"
  then show r: "updateCartItemQuantity productId change s
      = (s\<lparr>cart := filter (\<lambda>item. id_i item \<noteq> productId) (cart s)\<rparr>, None)"
    by (simp add: updateCartItemQuantity_def find_first removeFromCart_def)
  show "productId \<notin> id_i ` set (cart (fst (updateCartItemQuantity productId change s)))"
    unfolding r by auto
next
  assume "cart s = xs @ l # ys \<and> (\<forall>x\<in>set xs. id_i x \<noteq> productId) \<and> id_i l = productId
    \<and> 0 < quantity l + change \<and> quantity l + change \<le> maxStock l"
  then show "updateCartItemQuantity productId change s
      = (s\<lparr>cart := xs @ l\<lparr>quantity := quantity l + change\<rparr> # ys\<rparr>, None)"
    by (simp add: updateCartItemQuantity_def find_first update_first_first)
next
  assume "cart s = xs @ l # ys \<and> (\<forall>x\<in>set xs. id_i x \<noteq> productId) \<and> id_i l = productId
    \<and> 0 \<le> maxStock l \<and> maxStock l < quantity l + change"
  then show "updateCartItemQuantity productId change s = (s, Some InsufficientStock)"
    by (simp add: updateCartItemQuantity_def find_first)
qed

text \<open>
  On a cart with a mascara line and two lipsticks (\<open>maxStock = 3\<close>): an unknown id
  changes nothing, \<open>- 5\<close> removes the lipstick line, \<open>- 1\<close> leaves one lipstick, and
  \<open>+ 2\<close> is refused.
\<close>

theorem updateCartItemQuantity_cases_witness:
  "updateCartItemQuantity ''p9'' 1 (new_session\<lparr>cart := [mascara_line, lipstick_line 2]\<rparr>)
     = (new_session\<lparr>cart := [mascara_line, lipstick_line 2]\<rparr>, None)
   \<and> updateCartItemQuantity ''p1'' (- 5) (new_session\<lparr>cart := [mascara_line, lipstick_line 2]\<rparr>)
     = (new_session\<lparr>cart := [mascara_line]\<rparr>, None)
   \<and> updateCartItemQuantity ''p1'' (- 1) (new_session\<lparr>cart := [mascara_line, lipstick_line 2]\<rparr>)
     = (new_session\<lparr>cart := [mascara_line, lipstick_line 1]\<rparr>, None)
   \<and> updateCartItemQuantity ''p1'' 2 (new_session\<lparr>cart := [mascara_line, lipstick_line 2]\<rparr>)
     = (new_session\<lparr>cart := [mascara_line, lipstick_line 2]\<rparr>, Some InsufficientStock)"
  using updateCartItemQuantity_cases
          [where s = "new_session\<lparr>cart := [mascara_line, lipstick_line 2]\<rparr>"
             and productId = "''p9''" and change = 1
             and xs = "[]" and l = "lipstick_line 0" and ys = "[]"]
        updateCartItemQuantity_cases
          [where s = "new_session\<lparr>cart := [mascara_line, lipstick_line 2]\<rparr>"
             and productId = "''p1''" and change = "- 5"
             and xs = "[mascara_line]" and l = "lipstick_line 2" and ys = "[]"]
        updateCartItemQuantity_cases
          [where s = "new_session\<lparr>cart := [mascara_line, lipstick_line 2]\<rparr>"
             and productId = "''p1''" and change = "- 1"
             and xs = "[mascara_line]" and l = "lipstick_line 2" and ys = "[]"]
        updateCartItemQuantity_cases
          [where s = "new_session\<lparr>cart := [mascara_line, lipstick_line 2]\<rparr>"
             and productId = "''p1''" and change = 2
             and xs = "[mascara_line]" and l = "lipstick_line 2" and ys = "[]"]
  by (simp add: new_session_def mascara_line_def lipstick_line_def)

section \<open>Invariants over sequences of operations\<close>

lemma basic_inv_addToCart: "basic_inv (cart s) \<Longrightarrow> basic_inv (cart (fst (addToCart p s)))"
proof (cases "find (\<lambda>item. id_i item = id_p p) (cart s)")
  case None
  assume inv: "basic_inv (cart s)"
  from None have "\<forall>x\<in>set (cart s). id_i x \<noteq> id_p p"
    by (auto simp: find_None_iff)
  with None inv show ?thesis
    by (auto simp: basic_inv_def addToCart_def)
next
  case (Some e)
  assume inv: "basic_inv (cart s)"
  from Some have "e \<in> set (cart s)"
    by (auto simp: find_Some_iff)
  with inv have "0 < quantity (e\<lparr>quantity := quantity e + 1\<rparr>)"
    by (auto simp: basic_inv_def list_all_iff)
  with inv Some show ?thesis
    by (simp add: basic_inv_def addToCart_def map_update_first list_all_update_first)
qed

lemma basic_inv_removeFromCart:
  "basic_inv (cart s) \<Longrightarrow> basic_inv (cart (removeFromCart productId s))"
  by (auto simp: basic_inv_def removeFromCart_def list_all_iff distinct_map_filter)

lemma basic_inv_updateCartItemQuantity:
  "basic_inv (cart s) \<Longrightarrow> basic_inv (cart (fst (updateCartItemQuantity productId change s)))"
proof (cases "find (\<lambda>i. id_i i = productId) (cart s)")
  case None
  assume "basic_inv (cart s)"
  with None show ?thesis
    by (simp add: updateCartItemQuantity_def)
next
  case (Some e)
  assume inv: "basic_inv (cart s)"
  with Some basic_inv_removeFromCart [OF inv, of productId] show ?thesis
    by (simp add: basic_inv_def updateCartItemQuantity_def Let_def map_update_first
          list_all_update_first)
qed

lemma basic_inv_apply_op: "basic_inv (cart s) \<Longrightarrow> basic_inv (cart (apply_op op s))"
  by (cases op)
     (simp_all add: basic_inv_addToCart basic_inv_removeFromCart basic_inv_updateCartItemQuantity)

lemma basic_inv_run_ops: "basic_inv (cart s) \<Longrightarrow> basic_inv (cart (run_ops ops s))"
  by (induction ops arbitrary: s) (simp_all add: basic_inv_apply_op)

lemma in_update_first: "find P xs = Some x \<Longrightarrow> f x \<in> set (update_first P f xs)"
  by (induction xs) (auto split: if_splits)

lemma cart_invariant_parts: "cart_invariant c \<longleftrightarrow> basic_inv c \<and> bound_inv c"
  by (auto simp: cart_invariant_def basic_inv_def bound_inv_def list_all_iff)

lemma bound_inv_addToCart:
  assumes inv: "bound_inv (cart s)" and ok: "add_keeps_bound p (cart s)"
  shows "bound_inv (cart (fst (addToCart p s)))"
proof (cases "find (\<lambda>item. id_i item = id_p p) (cart s)")
  case None
  with assms show ?thesis
    by (simp add: bound_inv_def addToCart_def add_keeps_bound_def)
next
  case (Some e)
  show ?thesis
  proof (cases "quantity e < stock p")
    case True
    with ok Some have "quantity (e\<lparr>quantity := quantity e + 1\<rparr>)
        \<le> maxStock (e\<lparr>quantity := quantity e + 1\<rparr>)"
      by (simp add: add_keeps_bound_def)
    with inv Some True show ?thesis
      unfolding bound_inv_def addToCart_def
      by (simp add: list_all_update_first)
  next
    case False
    with inv Some show ?thesis
      by (simp add: addToCart_def)
  qed
qed

lemma bound_inv_removeFromCart:
  "bound_inv (cart s) \<Longrightarrow> bound_inv (cart (removeFromCart productId s))"
  by (auto simp: bound_inv_def removeFromCart_def list_all_iff)

lemma bound_inv_updateCartItemQuantity:
  assumes inv: "bound_inv (cart s)"
  shows "bound_inv (cart (fst (updateCartItemQuantity productId change s)))"
proof (cases "find (\<lambda>i. id_i i = productId) (cart s)")
  case None
  with inv show ?thesis
    by (simp add: updateCartItemQuantity_def)
next
  case (Some e)
  with inv bound_inv_removeFromCart [OF inv, of productId] show ?thesis
    unfolding bound_inv_def updateCartItemQuantity_def
    by (simp add: Let_def list_all_update_first)
qed

lemma cart_invariant_apply_op:
  assumes inv: "cart_invariant (cart s)"
    and ok: "\<And>p. op = AddItem p \<Longrightarrow> add_keeps_bound p (cart s)"
  shows "cart_invariant (cart (apply_op op s))"
proof -
  from inv have "basic_inv (cart (apply_op op s))"
    by (simp add: cart_invariant_parts basic_inv_apply_op)
  moreover from inv ok have "bound_inv (cart (apply_op op s))"
    by (cases op)
       (simp_all add: cart_invariant_parts bound_inv_addToCart bound_inv_removeFromCart
          bound_inv_updateCartItemQuantity)
  ultimately show ?thesis
    by (simp add: cart_invariant_parts)
qed

lemma add_keeps_bound_needed:
  assumes after: "cart_invariant (cart (fst (addToCart p s)))"
  shows "add_keeps_bound p (cart s)"
proof (cases "find (\<lambda>item. id_i item = id_p p) (cart s)")
  case None
  with after show ?thesis
    by (simp add: add_keeps_bound_def addToCart_def cart_invariant_def)
next
  case (Some e)
  show ?thesis
  proof (cases "quantity e < stock p")
    case True
    from Some have "e\<lparr>quantity := quantity e + 1\<rparr>
        \<in> set (update_first (\<lambda>item. id_i item = id_p p)
                 (\<lambda>item. item\<lparr>quantity := quantity item + 1\<rparr>) (cart s))"
      by (rule in_update_first)
    with after Some True have "quantity e + 1 \<le> maxStock e"
      by (auto simp: addToCart_def cart_invariant_def list_all_iff)
    with Some show ?thesis
      by (simp add: add_keeps_bound_def)
  next
    case False
    with Some show ?thesis
      by (simp add: add_keeps_bound_def)
  qed
qed

lemma invariant_along_iff:
  "cart_invariant (cart s) \<Longrightarrow> invariant_along ops s \<longleftrightarrow> adds_keep_bound ops s"
proof (induction ops arbitrary: s)
  case Nil
  then show ?case by simp
next
  case (Cons op ops)
  show ?case
  proof (cases op)
    case (AddItem p)
    show ?thesis
    proof (cases "add_keeps_bound p (cart s)")
      case True
      with Cons.prems AddItem have "cart_invariant (cart (apply_op op s))"
        by (intro cart_invariant_apply_op) simp_all
      with Cons.IH Cons.prems AddItem True show ?thesis
        by simp
    next
      case False
      with add_keeps_bound_needed [of p s]
      have "\<not> cart_invariant (cart (apply_op op s))"
        using AddItem by auto
      then have "\<not> invariant_along ops (apply_op op s)"
        by (cases ops) simp_all
      with False AddItem show ?thesis
        by simp
    qed
  next
    case (RemoveItem productId)
    with Cons.prems have "cart_invariant (cart (apply_op op s))"
      by (intro cart_invariant_apply_op) simp_all
    with Cons.IH Cons.prems RemoveItem show ?thesis
      by simp
  next
    case (UpdateQuantity productId change)
    with Cons.prems have "cart_invariant (cart (apply_op op s))"
      by (intro cart_invariant_apply_op) simp_all
    with Cons.IH Cons.prems UpdateQuantity show ?thesis
      by simp
  qed
qed

lemma invariant_along_end: "invariant_along ops s \<Longrightarrow> cart_invariant (cart (run_ops ops s))"
  by (induction ops arbitrary: s) simp_all

text \<open>
  C3 (as amended). After every sequence of \<open>addToCart\<close>, \<open>removeFromCart\<close> and
  \<open>updateCartItemQuantity\<close> calls on an initially empty cart, every line has a positive
  quantity and no two lines have the same product id. If moreover no \<open>addToCart\<close> of the
  sequence creates a line from a product with \<open>stock \<le> 0\<close> and none increments a line
  whose quantity has reached its \<open>maxStock\<close>, every line also has
  \<open>quantity \<le> maxStock\<close>, that is, the invariant of the specification holds. This
  condition on the adds is exactly the one under which the invariant holds after each
  operation of the sequence.
\<close>

theorem run_ops_invariant:
  "cart s = [] \<Longrightarrow>
     list_all (\<lambda>l. 0 < quantity l) (cart (run_ops ops s))
     \<and> distinct (map id_i (cart (run_ops ops s)))
     \<and> (adds_keep_bound ops s \<longrightarrow> cart_invariant (cart (run_ops ops s)))
     \<and> (invariant_along ops s \<longleftrightarrow> adds_keep_bound ops s)"
proof -
  assume e: "cart s = []"
  then have "basic_inv (cart s)" and c0: "cart_invariant (cart s)"
    by (simp_all add: basic_inv_def cart_invariant_def)
  then have b: "basic_inv (cart (run_ops ops s))"
    by (simp add: basic_inv_run_ops)
  from c0 have i: "invariant_along ops s \<longleftrightarrow> adds_keep_bound ops s"
    by (rule invariant_along_iff)
  then have "cart_invariant (cart (run_ops ops s))" if "adds_keep_bound ops s"
    using that by (simp add: invariant_along_end)
  with b i show ?thesis
    by (simp add: basic_inv_def)
qed

text \<open>
  Ten operations: a second lipstick from a restocked snapshot (stock 5, the line at 1
  of 3), two adds and one quantity change that are refused, one line removed by \<open>- 1\<close>,
  one removed and added again. The adds keep the bound, and the cart ends with one
  mascara and one lipstick and satisfies the invariant.
\<close>

theorem run_ops_invariant_witness:
  "cart new_session = [] \<and> adds_keep_bound sample_ops new_session
   \<and> cart (run_ops sample_ops new_session) = [mascara_line, lipstick_line 1]
   \<and> cart_invariant [mascara_line, lipstick_line 1]"
  using run_ops_invariant [where s = new_session and ops = sample_ops]
  by (simp add: sample_ops_def new_session_def lipstick_def restocked_lipstick_def mascara_def
        lipstick_line_def mascara_line_def addToCart_def updateCartItemQuantity_def
        removeFromCart_def add_keeps_bound_def cart_invariant_def)

text \<open>
  C3 as stated fails on two sequences: a first add of the sold-out blush leaves a line
  with quantity 1 and \<open>maxStock = 0\<close>; three adds of the lipstick followed by one with
  the restocked snapshot leave a line with quantity 4 and \<open>maxStock = 3\<close>.
\<close>

theorem run_ops_invariant_counterexample:
  "\<not> cart_invariant (cart (run_ops [AddItem sold_out] new_session))
   \<and> cart (run_ops [AddItem lipstick, AddItem lipstick, AddItem lipstick,
                    AddItem restocked_lipstick] new_session) = [lipstick_line 4]
   \<and> \<not> cart_invariant [lipstick_line 4]"
  by (simp add: cart_invariant_def sold_out_def lipstick_def restocked_lipstick_def
        lipstick_line_def new_session_def addToCart_def)

section \<open>Clearing the cart\<close>

text \<open>
  C9 (as amended). \<open>clearCart\<close> empties the cart lines and writes nothing else: the
  discount and cash-received inputs keep their values, as do the payment method and the
  selected customer.
\<close>

theorem clearCart_frame:
  "cart (clearCart s) = []
   \<and> discountInput (clearCart s) = discountInput s
   \<and> cashReceived (clearCart s) = cashReceived s
   \<and> payment (clearCart s) = payment s
   \<and> customerSelect (clearCart s) = customerSelect s"
  by (simp add: clearCart_def)

text \<open>
  C9 as stated fails: with a discount of 5 and 20 in cash entered, neither input is zero
  after \<open>clearCart\<close>.
\<close>

theorem clearCart_keeps_inputs_counterexample:
  "discountInput (clearCart (new_session\<lparr>discountInput := 5, cashReceived := 20\<rparr>)) \<noteq> 0
   \<and> cashReceived (clearCart (new_session\<lparr>discountInput := 5, cashReceived := 20\<rparr>)) \<noteq> 0"
  by (simp add: clearCart_def new_session_def)

section \<open>Totals and the discount\<close>

text \<open>
  C2 (as amended). For every cart and every discount, \<open>updateTotals\<close> and
  \<open>calculateTotal\<close> use the taxable amount \<open>subtotal - discount\<close> as it is, without a
  clamp: the tax is that amount times the tax rate and the total is that amount plus the
  tax, and \<open>calculateTotal\<close> returns the total that \<open>updateTotals\<close> shows. Whenever the
  discount is at most the subtotal this is the clamped computation of the
  specification; whenever the discount exceeds the subtotal (and the tax rate is not
  negative) the tax is at most 0 and the total is negative.
\<close>

theorem totals_unclamped:
  "updateTotals s =
     (cart_subtotal (cart s),
      (cart_subtotal (cart s) - discountInput s) * taxRate s,
      (cart_subtotal (cart s) - discountInput s)
        + (cart_subtotal (cart s) - discountInput s) * taxRate s)
   \<and> calculateTotal s = snd (snd (updateTotals s))
   \<and> (discountInput s \<le> cart_subtotal (cart s)
      \<longrightarrow> updateTotals s = computeTotals_spec (cart s) (discountInput s) (taxRate s))
   \<and> (cart_subtotal (cart s) < discountInput s \<and> 0 \<le> taxRate s
      \<longrightarrow> fst (snd (updateTotals s)) \<le> 0 \<and> calculateTotal s < 0)"
proof -
  have "(cart_subtotal (cart s) - discountInput s) * taxRate s \<le> 0"
    if "cart_subtotal (cart s) < discountInput s" "0 \<le> taxRate s"
    using that by (simp add: mult_nonpos_nonneg)
  then show ?thesis
    by (auto simp: updateTotals_def calculateTotal_def computeTotals_spec_def Let_def max_def)
qed

text \<open>
  Two lipsticks at 10 and a tax rate of 1/8: without a discount the totals are
  20, 2.5 and 22.5, as the specification computes them; with a discount of 25 the
  total is below 0.
\<close>

theorem totals_unclamped_witness:
  "discountInput (cash_session 0) \<le> cart_subtotal (cart (cash_session 0))
   \<and> updateTotals (cash_session 0) = (20, 5/2, 45/2)
   \<and> computeTotals_spec [lipstick_line 2] 0 (1/8) = (20, 5/2, 45/2)
   \<and> calculateTotal (cash_session 0) = 45/2
   \<and> cart_subtotal (cart ((cash_session 0)\<lparr>discountInput := 25\<rparr>)) < 25
   \<and> calculateTotal ((cash_session 0)\<lparr>discountInput := 25\<rparr>) < 0"
  using totals_unclamped [where s = "cash_session 0"]
        totals_unclamped [where s = "(cash_session 0)\<lparr>discountInput := 25\<rparr>"]
  by (simp add: cash_session_def new_session_def lipstick_line_def cart_subtotal_def
        computeTotals_spec_def)

text \<open>
  C2 as stated fails: a subtotal of 20 with a discount of 25 at a tax rate of 1/8 gives a
  tax of \<open>- 5/8\<close> and a total of \<open>- 45/8\<close>, where the clamped computation gives 0 and 0.
\<close>

theorem totals_clamp_counterexample:
  "cart_subtotal [lipstick_line 2] < 25
   \<and> updateTotals ((cash_session 0)\<lparr>discountInput := 25\<rparr>) = (20, - (5/8), - (45/8))
   \<and> calculateTotal ((cash_session 0)\<lparr>discountInput := 25\<rparr>) = - (45/8)
   \<and> computeTotals_spec [lipstick_line 2] 25 (1/8) = (20, 0, 0)"
  by (simp add: cash_session_def new_session_def lipstick_line_def cart_subtotal_def
        computeTotals_spec_def updateTotals_def calculateTotal_def)

section \<open>Properties of checkout\<close>

lemma checkout_begin_Inl: "snd (checkout_begin s) = Inl e \<Longrightarrow> checkout_begin s = (s, Inl e)"
  by (auto simp: checkout_begin_def Let_def split: if_splits)

lemma checkout_begin_Inr:
  "snd (checkout_begin s) = Inr td
   \<Longrightarrow> checkout_begin s = (s\<lparr>inFlight := Suc (inFlight s)\<rparr>, Inr td)"
  by (auto simp: checkout_begin_def Let_def split: if_splits)

lemma checkout_resume_cart:
  "cart (fst (checkout_resume r s)) = (if succeeded r then [] else cart s)"
  by (cases r) (simp_all add: checkout_resume_def clearCart_def)

lemma checkout_resume_failed:
  "\<not> succeeded r \<Longrightarrow> fst (checkout_resume r s) = s\<lparr>inFlight := inFlight s - 1\<rparr>"
  by (cases r) (simp_all add: checkout_resume_def)

text \<open>
  C1. When \<open>checkout\<close> submits a request \<open>td\<close> and the submission reports success, the
  cart is empty afterwards. When the submission fails (the request is rejected, or the
  response has \<open>success = false\<close>), \<open>checkout\<close> reports an error and the state, the cart
  lines among it, is what it was before the call. When validation fails, nothing
  changes either. Conversely a cart that was not empty is empty after \<open>checkout\<close> only
  if a request was submitted and reported success. The continuation alone, run at any
  later state, clears the cart on success and leaves its lines in place otherwise.
\<close>

theorem checkout_clears_iff_success:
  "(snd (checkout_begin s) = Inr td \<and> succeeded (api td) \<longrightarrow> cart (fst (checkout api s)) = [])
   \<and> (snd (checkout_begin s) = Inr td \<and> \<not> succeeded (api td)
        \<longrightarrow> fst (checkout api s) = s \<and> isl (snd (checkout api s)))
   \<and> (snd (checkout_begin s) = Inl e \<longrightarrow> checkout api s = (s, Inl e))
   \<and> (cart s \<noteq> [] \<and> cart (fst (checkout api s)) = []
        \<longrightarrow> (case snd (checkout_begin s) of Inl e \<Rightarrow> False | Inr td \<Rightarrow> succeeded (api td)))
   \<and> cart (fst (checkout_resume r s)) = (if succeeded r then [] else cart s)"
proof (intro conjI impI)
  assume "snd (checkout_begin s) = Inr td \<and> succeeded (api td)"
  then show "cart (fst (checkout api s)) = []"
    by (simp add: checkout_def checkout_begin_Inr checkout_resume_cart)
next
  assume a: "snd (checkout_begin s) = Inr td \<and> \<not> succeeded (api td)"
  then show "fst (checkout api s) = s"
    by (simp add: checkout_def checkout_begin_Inr checkout_resume_failed)
  from a show "isl (snd (checkout api s))"
    by (cases "api td") (simp_all add: checkout_def checkout_begin_Inr checkout_resume_def)
next
  assume "snd (checkout_begin s) = Inl e"
  then show "checkout api s = (s, Inl e)"
    by (simp add: checkout_def checkout_begin_Inl)
next
  assume a: "cart s \<noteq> [] \<and> cart (fst (checkout api s)) = []"
  show "case snd (checkout_begin s) of Inl e \<Rightarrow> False | Inr td \<Rightarrow> succeeded (api td)"
  proof (cases "snd (checkout_begin s)")
    case (Inl e)
    with a show ?thesis
      by (simp add: checkout_def checkout_begin_Inl)
  next
    case (Inr td)
    with a show ?thesis
      by (simp add: checkout_def checkout_begin_Inr checkout_resume_cart split: if_splits)
  qed
next
  show "cart (fst (checkout_resume r s)) = (if succeeded r then [] else cart s)"
    by (rule checkout_resume_cart)
qed

text \<open>
  Two lipsticks paid with 25 in cash: an accepting endpoint empties the cart and 2.5 is
  due as change; a refusing endpoint and an unreachable one leave the session as it
  was; with 20 in cash nothing is submitted and nothing changes.
\<close>

theorem checkout_clears_iff_success_witness:
  "snd (checkout_begin (cash_session 25)) = Inr (lipstick_sale ''cash'' 25 0)
   \<and> checkout accepting (cash_session 25) = ((cash_session 25)\<lparr>cart := []\<rparr>, Inr (Some (5/2)))
   \<and> checkout refusing (cash_session 25)
       = (cash_session 25, Inl (SubmissionFailed ''Insufficient stock''))
   \<and> checkout unreachable (cash_session 25)
       = (cash_session 25, Inl (SubmissionFailed ''Failed to fetch''))
   \<and> checkout accepting (cash_session 20) = (cash_session 20, Inl InsufficientFunds)"
  using checkout_clears_iff_success [where s = "cash_session 25" and api = accepting
          and td = "lipstick_sale ''cash'' 25 0" and e = EmptyCart and r = "Rejects []"]
        checkout_clears_iff_success [where s = "cash_session 25" and api = refusing
          and td = "lipstick_sale ''cash'' 25 0" and e = EmptyCart and r = "Rejects []"]
        checkout_clears_iff_success [where s = "cash_session 25" and api = unreachable
          and td = "lipstick_sale ''cash'' 25 0" and e = EmptyCart and r = "Rejects []"]
        checkout_clears_iff_success [where s = "cash_session 20" and api = accepting
          and td = "lipstick_sale ''cash'' 25 0" and e = InsufficientFunds and r = "Rejects []"]
  by (simp add: checkout_def checkout_begin_def checkout_resume_def clearCart_def
        cash_session_def new_session_def lipstick_line_def calculateTotal_def
        cart_subtotal_def lipstick_sale_def accepting_def refusing_def unreachable_def Let_def)

text \<open>
  C6. \<open>checkout\<close> on a cart without lines fails with \<open>EmptyCart\<close>; with the payment
  method \<open>cash\<close> and less cash received than the total it fails with
  \<open>InsufficientFunds\<close> (with \<open>EmptyCart\<close> if the cart has no lines, the check that
  comes first). In both cases the part of \<open>checkout\<close> before the request ends with the
  error: no request is issued, whatever the endpoint would answer, and the state, the
  cart among it, is unchanged.
\<close>

theorem checkout_validation:
  "(cart s = [] \<longrightarrow> checkout api s = (s, Inl EmptyCart) \<and> checkout_begin s = (s, Inl EmptyCart))
   \<and> (payment s = ''cash'' \<and> cashReceived s < calculateTotal s
        \<longrightarrow> checkout api s = (s, Inl (if cart s = [] then EmptyCart else InsufficientFunds))
          \<and> checkout_begin s = (s, Inl (if cart s = [] then EmptyCart else InsufficientFunds)))"
  by (simp add: checkout_def checkout_begin_def Let_def)

text \<open>An empty session, and two lipsticks (total 22.5) with 20 in cash.\<close>

theorem checkout_validation_witness:
  "cart new_session = []
   \<and> checkout accepting new_session = (new_session, Inl EmptyCart)
   \<and> payment (cash_session 20) = ''cash''
   \<and> cashReceived (cash_session 20) < calculateTotal (cash_session 20)
   \<and> checkout accepting (cash_session 20) = (cash_session 20, Inl InsufficientFunds)
   \<and> checkout_begin (cash_session 20) = (cash_session 20, Inl InsufficientFunds)"
  using checkout_validation [where s = new_session and api = accepting]
        checkout_validation [where s = "cash_session 20" and api = accepting]
  by (simp add: cash_session_def new_session_def lipstick_line_def calculateTotal_def
        cart_subtotal_def)

text \<open>
  C10 (as amended). \<open>checkout\<close> has no guard against a submission in flight: what it
  decides does not depend on the number of outstanding requests, it never fails with
  \<open>CheckoutInProgress\<close>, and whenever the cart has lines and the cash check passes it
  issues a request, one more being outstanding afterwards; a second call made right
  then decides the same and issues a second request.
\<close>

theorem checkout_not_guarded:
  "snd (checkout_begin (s\<lparr>inFlight := n\<rparr>)) = snd (checkout_begin s)
   \<and> snd (checkout_begin s) \<noteq> Inl CheckoutInProgress
   \<and> (cart s \<noteq> [] \<and> \<not> (payment s = ''cash'' \<and> cashReceived s < calculateTotal s)
        \<longrightarrow> \<not> isl (snd (checkout_begin s))
          \<and> inFlight (fst (checkout_begin s)) = Suc (inFlight s)
          \<and> snd (checkout_begin (fst (checkout_begin s))) = snd (checkout_begin s))"
  by (simp add: checkout_begin_def calculateTotal_def Let_def)

text \<open>A card payment of two lipsticks while one request is outstanding: a second is issued.\<close>

theorem checkout_not_guarded_witness:
  "cart (card_session\<lparr>inFlight := 1\<rparr>) \<noteq> []
   \<and> snd (checkout_begin (card_session\<lparr>inFlight := 1\<rparr>)) = Inr (lipstick_sale ''card'' 0 (45/2))
   \<and> inFlight (fst (checkout_begin (card_session\<lparr>inFlight := 1\<rparr>))) = 2"
  using checkout_not_guarded [where s = "card_session\<lparr>inFlight := 1\<rparr>" and n = 0]
  by (simp add: checkout_begin_def card_session_def new_session_def lipstick_line_def
        calculateTotal_def cart_subtotal_def lipstick_sale_def Let_def)

text \<open>
  C10 as stated fails: after a first call one request is outstanding; a second call
  before any answer is not refused with \<open>CheckoutInProgress\<close> but issues the same
  request again, and two requests are outstanding.
\<close>

theorem checkout_reentrant_counterexample:
  "inFlight (fst (checkout_begin card_session)) = 1
   \<and> snd (checkout_begin (fst (checkout_begin card_session)))
       = Inr (lipstick_sale ''card'' 0 (45/2))
   \<and> snd (checkout_begin (fst (checkout_begin card_session))) \<noteq> Inl CheckoutInProgress
   \<and> inFlight (fst (checkout_begin (fst (checkout_begin card_session)))) = 2"
  by (simp add: checkout_begin_def card_session_def new_session_def lipstick_line_def
        calculateTotal_def cart_subtotal_def lipstick_sale_def Let_def)

end
